theory Spec2Isabelle
  imports Main
begin

section \<open>MetalCity: the shared shader header \<open>ShaderTypes.h\<close>\<close>

text \<open>
  \<open>ShaderTypes.h\<close> is included both by the Metal shaders and by the Swift/ObjC host code.
  It has no function bodies: what it fixes is a sequence of preprocessor directives and type
  declarations. The header is therefore embedded as the value \<open>ShaderTypes_h\<close>, one item
  per directive or declaration of the file and in the file's order, together with the
  conditional inclusion that the preprocessor performs on it. Every statement below is about
  the translation unit that results from preprocessing that one value.
\<close>

subsection \<open>Types and declarations\<close>

text \<open>
  The type names that the header writes. \<open>metal_int32_t\<close> is \<open>metal::int32_t\<close>;
  \<open>TypedefName\<close> is a use of a name introduced by a \<open>typedef\<close> (the header uses
  \<open>EnumBackingType\<close> that way).
\<close>

datatype ctype =
    metal_int32_t
  | NSInteger
  | matrix_float4x4
  | vector_float3
  | float
  | TypedefName string

type_synonym enumerator = "string \<times> int"

type_synonym field = "ctype \<times> string"

text \<open>
  File-scope declarations. The header only ever writes the first three kinds; functions and
  objects (variables) are the two kinds of file-scope declaration that would carry behaviour
  or state.
\<close>

datatype decl =
    Typedef ctype string
  | Enum string ctype "enumerator list"
  | Struct "field list" string
  | Function string
  | Variable ctype string

text \<open>
  The lines of a header: conditional groups, macro definitions (name, parameters, replacement
  text), inclusions, plain declarations, and the form
  \<open>typedef NS_ENUM(_type, _name) { ... };\<close>. With the replacement text that the header
  itself gives to \<open>NS_ENUM\<close> (and Foundation's, which has the same shape) that form
  expands to \<open>typedef enum _name : _type _name; enum _name : _type { ... };\<close>, that is, to an
  enumeration \<open>_name\<close> with underlying type \<open>_type\<close>.
\<close>

datatype item =
    Ifndef string "item list"
  | Ifdef string "item list" "item list"
  | Define string "string list" string
  | Import string
  | Include string
  | Declare decl
  | TypedefNSEnum ctype string "enumerator list"

subsection \<open>The header\<close>

definition ShaderTypes_h :: "item list" where
  "ShaderTypes_h =
    [Ifndef ''ShaderTypes_h''
      [Define ''ShaderTypes_h'' [] '''',
       Ifdef ''__METAL_VERSION__''
         [Define ''NS_ENUM'' [''_type'', ''_name'']
            ''enum _name : _type _name; enum _name : _type'',
          Declare (Typedef metal_int32_t ''EnumBackingType'')]
         [Import ''Foundation/Foundation.h'',
          Declare (Typedef NSInteger ''EnumBackingType'')],
       Include ''simd/simd.h'',
       TypedefNSEnum (TypedefName ''EnumBackingType'') ''BufferIndex''
         [(''BufferIndexVertices'', 0),
          (''BufferIndexUniforms'', 1)],
       TypedefNSEnum (TypedefName ''EnumBackingType'') ''VertexAttribute''
         [(''VertexAttributePosition'', 0),
          (''VertexAttributeNormal'', 1),
          (''VertexAttributeColor'', 2)],
       Declare (Struct
         [(matrix_float4x4, ''projectionMatrix''),
          (matrix_float4x4, ''viewMatrix''),
          (vector_float3, ''lightDirection''),
          (float, ''ambientIntensity'')]
         ''Uniforms'')]]"

subsection \<open>Preprocessing\<close>

text \<open>
  The state of a translation unit while the header is read: the macros defined so far, the
  other headers pulled in, and the declarations seen, each in order of appearance.

  Macros are kept by name, which is what \<open>#ifdef\<close> and \<open>#ifndef\<close> test. The one macro that
  the header's declarations invoke is \<open>NS_ENUM\<close>, whose expansion is the enumeration that
  \<open>TypedefNSEnum\<close> yields; no other replacement of tokens inside declarations is modelled.
  That is exact for the two units that are compiled (\<open>compile\<close> below), where the only other
  macros of the state, \<open>__METAL_VERSION__\<close> and \<open>ShaderTypes_h\<close>, name no token of a
  declaration. It would not be for a unit started with a macro named like such a token;
  units start from the macros of one of the two compilation modes only.
\<close>

record unit_state =
  macros :: "string list"
  included :: "string list"
  decls :: "decl list"

fun preprocess :: "unit_state \<Rightarrow> item list \<Rightarrow> unit_state"
  and preprocess_item :: "unit_state \<Rightarrow> item \<Rightarrow> unit_state" where
  "preprocess s [] = s"
| "preprocess s (i # rest) = preprocess (preprocess_item s i) rest"
| "preprocess_item s (Ifndef m body) =
     (if m \<in> set (macros s) then s else preprocess s body)"
| "preprocess_item s (Ifdef m yes no) =
     (if m \<in> set (macros s) then preprocess s yes else preprocess s no)"
| "preprocess_item s (Define m ps body) = s\<lparr>macros := macros s @ [m]\<rparr>"
| "preprocess_item s (Import h) = s\<lparr>included := included s @ [h]\<rparr>"
| "preprocess_item s (Include h) = s\<lparr>included := included s @ [h]\<rparr>"
| "preprocess_item s (Declare d) = s\<lparr>decls := decls s @ [d]\<rparr>"
| "preprocess_item s (TypedefNSEnum t n es) = s\<lparr>decls := decls s @ [Enum n t es]\<rparr>"

text \<open>
  The two ways the header is compiled: by the Metal compiler, which predefines
  \<open>__METAL_VERSION__\<close>, and by the host (Swift/ObjC) compiler, which does not.
\<close>

datatype CompileMode = Metal | Host

fun predefined :: "CompileMode \<Rightarrow> string list" where
  "predefined Metal = [''__METAL_VERSION__'']"
| "predefined Host = []"

definition start :: "CompileMode \<Rightarrow> unit_state" where
  "start mode = \<lparr>macros = predefined mode, included = [], decls = []\<rparr>"

definition compile :: "CompileMode \<Rightarrow> unit_state" where
  "compile mode = preprocess (start mode) ShaderTypes_h"

subsection \<open>Reading a translation unit\<close>

fun decl_name :: "decl \<Rightarrow> string" where
  "decl_name (Typedef t n) = n"
| "decl_name (Enum n t es) = n"
| "decl_name (Struct fs n) = n"
| "decl_name (Function n) = n"
| "decl_name (Variable t n) = n"

fun typedefs :: "decl list \<Rightarrow> (string \<times> ctype) list" where
  "typedefs [] = []"
| "typedefs (Typedef t n # ds) = (n, t) # typedefs ds"
| "typedefs (d # ds) = typedefs ds"

fun enums :: "decl list \<Rightarrow> (string \<times> enumerator list) list" where
  "enums [] = []"
| "enums (Enum n t es # ds) = (n, es) # enums ds"
| "enums (d # ds) = enums ds"

fun enum_types :: "decl list \<Rightarrow> (string \<times> ctype) list" where
  "enum_types [] = []"
| "enum_types (Enum n t es # ds) = (n, t) # enum_types ds"
| "enum_types (d # ds) = enum_types ds"

fun structs :: "decl list \<Rightarrow> (string \<times> field list) list" where
  "structs [] = []"
| "structs (Struct fs n # ds) = (n, fs) # structs ds"
| "structs (d # ds) = structs ds"

fun function_names :: "decl list \<Rightarrow> string list" where
  "function_names [] = []"
| "function_names (Function n # ds) = n # function_names ds"
| "function_names (d # ds) = function_names ds"

fun variable_names :: "decl list \<Rightarrow> string list" where
  "variable_names [] = []"
| "variable_names (Variable t n # ds) = n # variable_names ds"
| "variable_names (d # ds) = variable_names ds"

definition enum_members :: "unit_state \<Rightarrow> string \<Rightarrow> enumerator list" where
  "enum_members u e = (case map_of (enums (decls u)) e of Some es \<Rightarrow> es | None \<Rightarrow> [])"

definition enum_value :: "unit_state \<Rightarrow> string \<Rightarrow> string \<Rightarrow> int option" where
  "enum_value u e m = map_of (enum_members u e) m"

definition struct_fields :: "unit_state \<Rightarrow> string \<Rightarrow> field list" where
  "struct_fields u n = (case map_of (structs (decls u)) n of Some fs \<Rightarrow> fs | None \<Rightarrow> [])"

text \<open>The type behind a typedef name, as declared in the unit (one step of lookup).\<close>

fun resolve :: "unit_state \<Rightarrow> ctype \<Rightarrow> ctype option" where
  "resolve u (TypedefName n) = map_of (typedefs (decls u)) n"
| "resolve u t = Some t"

definition underlying :: "unit_state \<Rightarrow> string \<Rightarrow> ctype option" where
  "underlying u e =
     (case map_of (enum_types (decls u)) e of Some t \<Rightarrow> resolve u t | None \<Rightarrow> None)"

subsection \<open>Element types of the record's fields\<close>

datatype scalar = Float32

datatype shape = Scalar | Vector nat | Matrix nat nat

text \<open>
  Modelled from the spec: the element type and the shape of \<open>matrix_float4x4\<close> and
  \<open>vector_float3\<close>, which the header takes from \<open>simd/simd.h\<close>, and of the built-in
  \<open>float\<close>. Neither the simd library nor the compiler is part of the repository; the spec
  (sections 3 and 6) gives the three as a 4x4 matrix, a 3-component vector and a scalar, all
  of 32-bit floating point. \<open>Matrix c r\<close> has \<open>c\<close> columns of \<open>r\<close> elements.
\<close>

fun simd_meaning :: "ctype \<Rightarrow> (scalar \<times> shape) option" where
  "simd_meaning matrix_float4x4 = Some (Float32, Matrix 4 4)"
| "simd_meaning vector_float3 = Some (Float32, Vector 3)"
| "simd_meaning float = Some (Float32, Scalar)"
| "simd_meaning t = None"

subsection \<open>Backing integer types of the constant sets\<close>

text \<open>
  The width in bits of the integer types behind \<open>EnumBackingType\<close>. \<open>metal::int32_t\<close> has
  32 bits. \<open>NSInteger\<close> is declared by Foundation, outside the repository, with the width of
  the host's machine word: that width is the parameter \<open>nsinteger_bits\<close>.
\<close>

fun int_bits :: "nat \<Rightarrow> ctype \<Rightarrow> nat option" where
  "int_bits nsinteger_bits metal_int32_t = Some 32"
| "int_bits nsinteger_bits NSInteger = Some nsinteger_bits"
| "int_bits nsinteger_bits t = None"

text \<open>The value that a two's complement integer of \<open>w\<close> bits holds when \<open>v\<close> is stored in it.\<close>

definition wrap_signed :: "nat \<Rightarrow> int \<Rightarrow> int" where
  "wrap_signed w v = (v + 2 ^ (w - 1)) mod 2 ^ w - 2 ^ (w - 1)"

text \<open>
  The members of an enumeration with the values they have in its underlying type, or
  \<open>None\<close> when the unit does not give the enumeration an integer underlying type.
\<close>

definition stored_members :: "nat \<Rightarrow> unit_state \<Rightarrow> string \<Rightarrow> enumerator list option" where
  "stored_members nsinteger_bits u e =
     (case underlying u e of
        None \<Rightarrow> None
      | Some t \<Rightarrow>
          (case int_bits nsinteger_bits t of
             None \<Rightarrow> None
           | Some w \<Rightarrow> Some (map (\<lambda>(m, v). (m, wrap_signed w v)) (enum_members u e))))"

subsection \<open>The text of the header\<close>

text \<open>
  Every declaration that the header writes, whichever conditional group it stands in, in the
  order of the text: a declaration written twice is listed twice.
\<close>

fun written :: "item list \<Rightarrow> decl list"
  and written_item :: "item \<Rightarrow> decl list" where
  "written [] = []"
| "written (i # rest) = written_item i @ written rest"
| "written_item (Ifndef x body) = written body"
| "written_item (Ifdef x yes no) = written yes @ written no"
| "written_item (Define x ps body) = []"
| "written_item (Import h) = []"
| "written_item (Include h) = []"
| "written_item (Declare d) = [d]"
| "written_item (TypedefNSEnum t n es) = [Enum n t es]"

text \<open>
  The declarations written inside a conditional group that tests the macro \<open>m\<close>, in either
  of its branches: the part of the text that depends on \<open>m\<close>.
\<close>

fun conditional_on :: "string \<Rightarrow> item list \<Rightarrow> decl list"
  and conditional_on_item :: "string \<Rightarrow> item \<Rightarrow> decl list" where
  "conditional_on m [] = []"
| "conditional_on m (i # rest) = conditional_on_item m i @ conditional_on m rest"
| "conditional_on_item m (Ifndef x body) =
     (if x = m then written body else conditional_on m body)"
| "conditional_on_item m (Ifdef x yes no) =
     (if x = m then written yes @ written no
      else conditional_on m yes @ conditional_on m no)"
| "conditional_on_item m (Define x ps body) = []"
| "conditional_on_item m (Import h) = []"
| "conditional_on_item m (Include h) = []"
| "conditional_on_item m (Declare d) = []"
| "conditional_on_item m (TypedefNSEnum t n es) = []"

subsection \<open>Layout of a record in memory\<close>

text \<open>
  Modelled from the spec: the rule by which the compiler places the fields of a record, which
  is not part of the repository. The spec (section 8) asks for a sequential layout with any
  required alignment padding: the fields lie in declaration order, each at the first
  position at or after the end of the one before it that is a multiple of its type's
  alignment, and the record's size is its end rounded up to the largest alignment among
  its fields. The size \<open>sz\<close> and the alignment \<open>al\<close> of each type, in bytes, belong to the
  target's libraries and are parameters.
\<close>

definition padding :: "nat \<Rightarrow> nat \<Rightarrow> nat" where
  "padding a pos = (a - pos mod a) mod a"

definition align_up :: "nat \<Rightarrow> nat \<Rightarrow> nat" where
  "align_up a pos = pos + padding a pos"

fun layout :: "(ctype \<Rightarrow> nat) \<Rightarrow> (ctype \<Rightarrow> nat) \<Rightarrow> nat \<Rightarrow> field list
    \<Rightarrow> (string \<times> nat) list \<times> nat" where
  "layout sz al pos [] = ([], pos)"
| "layout sz al pos ((t, n) # fs) =
     (case layout sz al (align_up (al t) pos + sz t) fs of
        (offsets, fin) \<Rightarrow> ((n, align_up (al t) pos) # offsets, fin))"

definition field_offsets :: "(ctype \<Rightarrow> nat) \<Rightarrow> (ctype \<Rightarrow> nat) \<Rightarrow> field list
    \<Rightarrow> (string \<times> nat) list" where
  "field_offsets sz al fs = fst (layout sz al 0 fs)"

fun struct_alignment :: "(ctype \<Rightarrow> nat) \<Rightarrow> field list \<Rightarrow> nat" where
  "struct_alignment al [] = 1"
| "struct_alignment al ((t, n) # fs) = max (al t) (struct_alignment al fs)"

definition struct_size :: "(ctype \<Rightarrow> nat) \<Rightarrow> (ctype \<Rightarrow> nat) \<Rightarrow> field list \<Rightarrow> nat" where
  "struct_size sz al fs = align_up (struct_alignment al fs) (snd (layout sz al 0 fs))"

text \<open>
  The bytes that the elements of a field type take by themselves, from its shape and element
  type. A layout with these sizes and alignment 1 throughout is the tight packing.
\<close>

fun scalar_bytes :: "scalar \<Rightarrow> nat" where
  "scalar_bytes Float32 = 4"

fun elements :: "shape \<Rightarrow> nat" where
  "elements Scalar = 1"
| "elements (Vector n) = n"
| "elements (Matrix c r) = c * r"

definition content_bytes :: "ctype \<Rightarrow> nat" where
  "content_bytes t =
     (case simd_meaning t of Some (s, sh) \<Rightarrow> scalar_bytes s * elements sh | None \<Rightarrow> 0)"

section \<open>Properties\<close>

subsection \<open>The two translation units\<close>

lemma compile_Metal:
  "compile Metal =
    \<lparr>macros = [''__METAL_VERSION__'', ''ShaderTypes_h'', ''NS_ENUM''],
     included = [''simd/simd.h''],
     decls =
       [Typedef metal_int32_t ''EnumBackingType'',
        Enum ''BufferIndex'' (TypedefName ''EnumBackingType'')
          [(''BufferIndexVertices'', 0), (''BufferIndexUniforms'', 1)],
        Enum ''VertexAttribute'' (TypedefName ''EnumBackingType'')
          [(''VertexAttributePosition'', 0), (''VertexAttributeNormal'', 1),
           (''VertexAttributeColor'', 2)],
        Struct
          [(matrix_float4x4, ''projectionMatrix''), (matrix_float4x4, ''viewMatrix''),
           (vector_float3, ''lightDirection''), (float, ''ambientIntensity'')]
          ''Uniforms'']\<rparr>"
  by (simp add: compile_def start_def ShaderTypes_h_def)

lemma compile_Host:
  "compile Host =
    \<lparr>macros = [''ShaderTypes_h''],
     included = [''Foundation/Foundation.h'', ''simd/simd.h''],
     decls =
       [Typedef NSInteger ''EnumBackingType'',
        Enum ''BufferIndex'' (TypedefName ''EnumBackingType'')
          [(''BufferIndexVertices'', 0), (''BufferIndexUniforms'', 1)],
        Enum ''VertexAttribute'' (TypedefName ''EnumBackingType'')
          [(''VertexAttributePosition'', 0), (''VertexAttributeNormal'', 1),
           (''VertexAttributeColor'', 2)],
        Struct
          [(matrix_float4x4, ''projectionMatrix''), (matrix_float4x4, ''viewMatrix''),
           (vector_float3, ''lightDirection''), (float, ''ambientIntensity'')]
          ''Uniforms'']\<rparr>"
  by (simp add: compile_def start_def ShaderTypes_h_def)

lemma Uniforms_in_units:
  "struct_fields (compile mode) ''Uniforms'' =
     [(matrix_float4x4, ''projectionMatrix''), (matrix_float4x4, ''viewMatrix''),
      (vector_float3, ''lightDirection''), (float, ''ambientIntensity'')]"
  by (cases mode) (simp_all add: compile_Metal compile_Host struct_fields_def)

lemma align_up_multiple:
  assumes "a dvd pos"
  shows "align_up a pos = pos"
  using assms by (simp add: align_up_def padding_def)

lemma align_up_lower:
  "pos \<le> align_up a pos"
  by (simp add: align_up_def)

lemma align_up_upper:
  assumes "0 < a"
  shows "align_up a pos < pos + a"
  using assms by (simp add: align_up_def padding_def)

lemma align_up_dvd:
  assumes "0 < a"
  shows "a dvd align_up a pos"
proof (cases "pos mod a = 0")
  case True
  then show ?thesis
    by (simp add: align_up_def padding_def mod_eq_0_iff_dvd)
next
  case False
  have less: "pos mod a < a"
    using assms by simp
  with False have "(a - pos mod a) mod a = a - pos mod a"
    by simp
  then have "align_up a pos = pos - pos mod a + a"
    using less by (simp add: align_up_def padding_def)
  also have "\<dots> = a * (pos div a) + a"
    by (simp add: minus_mod_eq_mult_div)
  finally show ?thesis
    by simp
qed

lemma wrap_signed_in_range:
  assumes "0 < w" and "0 \<le> v" and "v < 2 ^ (w - 1)"
  shows "wrap_signed w v = v"
proof -
  have "(2::int) ^ w = 2 * 2 ^ (w - 1)"
    using assms(1) by (cases w) simp_all
  then have "v + 2 ^ (w - 1) < 2 ^ w"
    using assms(3) by simp
  moreover have "0 \<le> v + 2 ^ (w - 1)"
    using assms(2) by simp
  ultimately have "(v + 2 ^ (w - 1)) mod 2 ^ w = v + 2 ^ (w - 1)"
    by simp
  then show ?thesis
    by (simp add: wrap_signed_def)
qed

lemma small_constants_fit:
  assumes "32 \<le> w"
  shows "wrap_signed w 0 = 0" and "wrap_signed w 1 = 1" and "wrap_signed w 2 = 2"
proof -
  have "(2::int) ^ 31 \<le> 2 ^ (w - 1)"
    using assms by (intro power_increasing) simp_all
  then have big: "(2::int) < 2 ^ (w - 1)"
    by simp
  have pos: "0 < w"
    using assms by simp
  show "wrap_signed w 0 = 0"
    using wrap_signed_in_range [OF pos, of 0] big by simp
  show "wrap_signed w 1 = 1"
    using wrap_signed_in_range [OF pos, of 1] big by simp
  show "wrap_signed w 2 = 2"
    using wrap_signed_in_range [OF pos, of 2] big by simp
qed

subsection \<open>The record\<close>

text \<open>
  C1. In either compilation mode the record \<open>Uniforms\<close> has, in this order, the fields
  \<open>projectionMatrix\<close> and \<open>viewMatrix\<close> of type \<open>matrix_float4x4\<close>, \<open>lightDirection\<close> of
  type \<open>vector_float3\<close> and \<open>ambientIntensity\<close> of type \<open>float\<close>: two 4x4 matrices, a
  3-component vector and a scalar, each of 32-bit floating point elements.
\<close>

theorem Uniforms_fields:
  "struct_fields (compile mode) ''Uniforms'' =
     [(matrix_float4x4, ''projectionMatrix''), (matrix_float4x4, ''viewMatrix''),
      (vector_float3, ''lightDirection''), (float, ''ambientIntensity'')]
   \<and> map (\<lambda>(t, n). (n, simd_meaning t)) (struct_fields (compile mode) ''Uniforms'') =
     [(''projectionMatrix'', Some (Float32, Matrix 4 4)),
      (''viewMatrix'', Some (Float32, Matrix 4 4)),
      (''lightDirection'', Some (Float32, Vector 3)),
      (''ambientIntensity'', Some (Float32, Scalar))]"
  by (cases mode) (simp_all add: compile_Metal compile_Host struct_fields_def)

subsection \<open>The constant sets\<close>

text \<open>
  C2. In either compilation mode the constant set \<open>BufferIndex\<close> has the member
  \<open>BufferIndexVertices\<close> with value 0 and the member \<open>BufferIndexUniforms\<close> with value 1
  (the spec's Vertices and Uniforms), and the two values differ.
\<close>

theorem BufferIndex_values:
  "enum_value (compile mode) ''BufferIndex'' ''BufferIndexVertices'' = Some 0
   \<and> enum_value (compile mode) ''BufferIndex'' ''BufferIndexUniforms'' = Some 1
   \<and> enum_value (compile mode) ''BufferIndex'' ''BufferIndexVertices''
       \<noteq> enum_value (compile mode) ''BufferIndex'' ''BufferIndexUniforms''"
  by (cases mode) (simp_all add: compile_Metal compile_Host enum_value_def enum_members_def)

text \<open>
  C3. In either compilation mode the constant set \<open>VertexAttribute\<close> has exactly three
  members, \<open>VertexAttributePosition = 0\<close>, \<open>VertexAttributeNormal = 1\<close> and
  \<open>VertexAttributeColor = 2\<close> (the spec's Position, Normal and Color), and their values are
  pairwise distinct.
\<close>

theorem VertexAttribute_members:
  "enum_members (compile mode) ''VertexAttribute'' =
     [(''VertexAttributePosition'', 0), (''VertexAttributeNormal'', 1),
      (''VertexAttributeColor'', 2)]
   \<and> length (enum_members (compile mode) ''VertexAttribute'') = 3
   \<and> distinct (map snd (enum_members (compile mode) ''VertexAttribute''))"
  by (cases mode) (simp_all add: compile_Metal compile_Host enum_members_def)

text \<open>
  C5, as stated: \<open>BufferIndex\<close> has three members. It has two, in the Metal unit and in the
  host unit alike.
\<close>

theorem BufferIndex_not_three_members:
  "length (enum_members (compile Metal) ''BufferIndex'') \<noteq> 3
   \<and> length (enum_members (compile Host) ''BufferIndex'') \<noteq> 3"
  by (simp add: compile_Metal compile_Host enum_members_def)

text \<open>
  C5, amended. In either compilation mode \<open>BufferIndex\<close> has two members,
  \<open>BufferIndexVertices\<close> and \<open>BufferIndexUniforms\<close>, whose values are 0 and 1 respectively
  and are distinct.
\<close>

theorem BufferIndex_two_members:
  "map fst (enum_members (compile mode) ''BufferIndex'') =
     [''BufferIndexVertices'', ''BufferIndexUniforms'']
   \<and> map snd (enum_members (compile mode) ''BufferIndex'') = [0, 1]
   \<and> distinct (map snd (enum_members (compile mode) ''BufferIndex''))"
  by (cases mode) (simp_all add: compile_Metal compile_Host enum_members_def)

subsection \<open>What the header declares\<close>

text \<open>
  C6, as stated: the two constant sets and the record are all that the header makes visible.
  The unit also holds the type alias \<open>EnumBackingType\<close>, declared at file scope before them.
\<close>

theorem header_declares_more_than_three_names:
  "map decl_name (decls (compile Host)) \<noteq> [''BufferIndex'', ''VertexAttribute'', ''Uniforms'']
   \<and> map decl_name (decls (compile Metal)) \<noteq> [''BufferIndex'', ''VertexAttribute'', ''Uniforms'']"
  by (simp add: compile_Metal compile_Host)

text \<open>
  C6, amended. In either compilation mode the header declares, in this order, the type alias
  \<open>EnumBackingType\<close>, the two constant sets \<open>BufferIndex\<close> and \<open>VertexAttribute\<close> and the
  record \<open>Uniforms\<close>, and nothing else: no function and no variable. The macros it leaves
  defined are its include guard \<open>ShaderTypes_h\<close> and, in Metal mode, \<open>NS_ENUM\<close>.
\<close>

theorem header_declares_types_only:
  "map decl_name (decls (compile mode)) =
     [''EnumBackingType'', ''BufferIndex'', ''VertexAttribute'', ''Uniforms'']
   \<and> map fst (typedefs (decls (compile mode))) = [''EnumBackingType'']
   \<and> map fst (enums (decls (compile mode))) = [''BufferIndex'', ''VertexAttribute'']
   \<and> map fst (structs (decls (compile mode))) = [''Uniforms'']
   \<and> function_names (decls (compile mode)) = []
   \<and> variable_names (decls (compile mode)) = []
   \<and> macros (compile Metal) = predefined Metal @ [''ShaderTypes_h'', ''NS_ENUM'']
   \<and> macros (compile Host) = predefined Host @ [''ShaderTypes_h'']"
  by (cases mode) (simp_all add: compile_Metal compile_Host)

subsection \<open>The two sides of the CPU-GPU boundary\<close>

text \<open>
  C8. The underlying type of both constant sets is \<open>metal::int32_t\<close> in the Metal unit and
  \<open>NSInteger\<close> in the host unit, two different types. When \<open>NSInteger\<close> has at least 32
  bits (it has 64 on current hosts), every member of either set holds, in both underlying
  types, exactly the value that the header writes for it.
\<close>

theorem backing_types_hold_same_values:
  assumes "32 \<le> nsinteger_bits"
  shows "underlying (compile Metal) ''BufferIndex'' = Some metal_int32_t
    \<and> underlying (compile Metal) ''VertexAttribute'' = Some metal_int32_t
    \<and> underlying (compile Host) ''BufferIndex'' = Some NSInteger
    \<and> underlying (compile Host) ''VertexAttribute'' = Some NSInteger
    \<and> metal_int32_t \<noteq> NSInteger
    \<and> stored_members nsinteger_bits (compile Metal) ''BufferIndex'' =
        Some [(''BufferIndexVertices'', 0), (''BufferIndexUniforms'', 1)]
    \<and> stored_members nsinteger_bits (compile Host) ''BufferIndex'' =
        Some [(''BufferIndexVertices'', 0), (''BufferIndexUniforms'', 1)]
    \<and> stored_members nsinteger_bits (compile Metal) ''VertexAttribute'' =
        Some [(''VertexAttributePosition'', 0), (''VertexAttributeNormal'', 1),
              (''VertexAttributeColor'', 2)]
    \<and> stored_members nsinteger_bits (compile Host) ''VertexAttribute'' =
        Some [(''VertexAttributePosition'', 0), (''VertexAttributeNormal'', 1),
              (''VertexAttributeColor'', 2)]"
proof -
  have m: "wrap_signed 32 0 = 0" "wrap_signed 32 1 = 1" "wrap_signed 32 2 = 2"
    by (simp_all add: wrap_signed_def)
  note h = small_constants_fit [OF assms]
  show ?thesis
    by (simp add: compile_Metal compile_Host underlying_def stored_members_def
        enum_members_def m h)
qed

theorem backing_types_hold_same_values_witness:
  "(32::nat) \<le> 64
   \<and> stored_members 64 (compile Metal) ''VertexAttribute'' =
       stored_members 64 (compile Host) ''VertexAttribute''
   \<and> stored_members 64 (compile Metal) ''BufferIndex'' =
       stored_members 64 (compile Host) ''BufferIndex''
   \<and> underlying (compile Metal) ''BufferIndex'' \<noteq> underlying (compile Host) ''BufferIndex''"
proof -
  have h: "(32::nat) \<le> 64" by simp
  show ?thesis
    using h backing_types_hold_same_values [OF h] by simp
qed

text \<open>
  C9. Compiling the header in Metal mode and in host mode yields the same two constant sets,
  \<open>BufferIndex\<close> and \<open>VertexAttribute\<close> with the same members and values, and the same
  record \<open>Uniforms\<close> with the same fields and field types in the same order. They agree by
  construction: the text of the header writes each of the three exactly once, and the group
  conditional on \<open>__METAL_VERSION__\<close>, the only part that differs between the two sides,
  holds nothing but the two alternative declarations of \<open>EnumBackingType\<close>.
\<close>

theorem both_sides_share_definitions:
  "enums (decls (compile Metal)) =
     [(''BufferIndex'', [(''BufferIndexVertices'', 0), (''BufferIndexUniforms'', 1)]),
      (''VertexAttribute'',
         [(''VertexAttributePosition'', 0), (''VertexAttributeNormal'', 1),
          (''VertexAttributeColor'', 2)])]
   \<and> enums (decls (compile Host)) = enums (decls (compile Metal))
   \<and> structs (decls (compile Metal)) =
     [(''Uniforms'',
         [(matrix_float4x4, ''projectionMatrix''), (matrix_float4x4, ''viewMatrix''),
          (vector_float3, ''lightDirection''), (float, ''ambientIntensity'')])]
   \<and> structs (decls (compile Host)) = structs (decls (compile Metal))
   \<and> enums (written ShaderTypes_h) = enums (decls (compile Metal))
   \<and> structs (written ShaderTypes_h) = structs (decls (compile Metal))
   \<and> conditional_on ''__METAL_VERSION__'' ShaderTypes_h =
     [Typedef metal_int32_t ''EnumBackingType'', Typedef NSInteger ''EnumBackingType'']"
  by (simp add: compile_Metal compile_Host ShaderTypes_h_def)

subsection \<open>The record in memory\<close>

text \<open>
  C4. Let a 4x4 matrix of 32-bit floats take 64 bytes and a float 4, and let the alignments
  be any that divide 64 for the matrix and 128 for the vector (every power of two up to
  there) and any positive one for the float. Then, in either compilation mode, the fields of
  \<open>Uniforms\<close> lie in sequence without padding between the first three:
  \<open>projectionMatrix\<close> at offset 0, \<open>viewMatrix\<close> at 64, \<open>lightDirection\<close> at 128; and
  \<open>ambientIntensity\<close> follows the vector at the first multiple of its alignment at or after
  the vector's end. The size of the record is the end of \<open>ambientIntensity\<close> rounded up to
  a multiple of the record's alignment, with less than one alignment unit of padding.
\<close>

theorem Uniforms_layout_sequential:
  assumes "sz matrix_float4x4 = 64" and "al matrix_float4x4 dvd 64"
    and "al vector_float3 dvd 128" and "sz float = 4" and "0 < al float"
  shows "field_offsets sz al (struct_fields (compile mode) ''Uniforms'') =
      [(''projectionMatrix'', 0), (''viewMatrix'', 64), (''lightDirection'', 128),
       (''ambientIntensity'', align_up (al float) (128 + sz vector_float3))]
    \<and> 128 + sz vector_float3 \<le> align_up (al float) (128 + sz vector_float3)
    \<and> align_up (al float) (128 + sz vector_float3) < 128 + sz vector_float3 + al float
    \<and> al float dvd align_up (al float) (128 + sz vector_float3)
    \<and> struct_size sz al (struct_fields (compile mode) ''Uniforms'') =
        align_up (struct_alignment al (struct_fields (compile mode) ''Uniforms''))
          (align_up (al float) (128 + sz vector_float3) + 4)
    \<and> align_up (al float) (128 + sz vector_float3) + 4
        \<le> struct_size sz al (struct_fields (compile mode) ''Uniforms'')
    \<and> struct_size sz al (struct_fields (compile mode) ''Uniforms'')
        < align_up (al float) (128 + sz vector_float3) + 4
          + struct_alignment al (struct_fields (compile mode) ''Uniforms'')
    \<and> struct_alignment al (struct_fields (compile mode) ''Uniforms'')
        dvd struct_size sz al (struct_fields (compile mode) ''Uniforms'')"
proof -
  let ?F = "struct_fields (compile mode) ''Uniforms''"
  let ?o = "align_up (al float) (128 + sz vector_float3)"
  have m0: "align_up (al matrix_float4x4) 0 = 0"
    by (simp add: align_up_multiple)
  have m64: "align_up (al matrix_float4x4) 64 = 64"
    using assms(2) by (simp add: align_up_multiple)
  have v128: "align_up (al vector_float3) 128 = 128"
    using assms(3) by (simp add: align_up_multiple)
  have lay: "layout sz al 0 ?F =
      ([(''projectionMatrix'', 0), (''viewMatrix'', 64), (''lightDirection'', 128),
        (''ambientIntensity'', ?o)], ?o + 4)"
    by (simp add: Uniforms_in_units m0 m64 v128 assms(1) assms(4))
  have pos: "0 < struct_alignment al ?F"
    by (simp add: Uniforms_in_units)
  have offs: "field_offsets sz al ?F =
      [(''projectionMatrix'', 0), (''viewMatrix'', 64), (''lightDirection'', 128),
       (''ambientIntensity'', ?o)]"
    by (simp add: field_offsets_def lay)
  have size: "struct_size sz al ?F = align_up (struct_alignment al ?F) (?o + 4)"
    by (simp add: struct_size_def lay)
  have lower: "128 + sz vector_float3 \<le> ?o"
    by (rule align_up_lower)
  have upper: "?o < 128 + sz vector_float3 + al float"
    by (rule align_up_upper [OF assms(5)])
  have mult: "al float dvd ?o"
    by (rule align_up_dvd [OF assms(5)])
  have size_lower: "?o + 4 \<le> struct_size sz al ?F"
    unfolding size by (rule align_up_lower)
  have size_upper: "struct_size sz al ?F < ?o + 4 + struct_alignment al ?F"
    unfolding size by (rule align_up_upper [OF pos])
  have size_mult: "struct_alignment al ?F dvd struct_size sz al ?F"
    unfolding size by (rule align_up_dvd [OF pos])
  from offs lower upper mult size size_lower size_upper size_mult show ?thesis
    by blast
qed

text \<open>
  An instance: the sizes and alignments of Apple's simd library, where the matrix is four
  16-byte columns, the vector is padded to 16 bytes and the float has 4.
\<close>

theorem Uniforms_layout_sequential_witness:
  "(\<lambda>t. if t = float then 4 else if t = vector_float3 then 16 else 64) matrix_float4x4
     = (64::nat)
   \<and> (\<lambda>t. if t = float then 4 else (16::nat)) matrix_float4x4 dvd 64
   \<and> (\<lambda>t. if t = float then 4 else (16::nat)) vector_float3 dvd 128
   \<and> (\<lambda>t. if t = float then 4 else if t = vector_float3 then 16 else 64) float = (4::nat)
   \<and> 0 < (\<lambda>t. if t = float then 4 else (16::nat)) float
   \<and> field_offsets
        (\<lambda>t. if t = float then 4 else if t = vector_float3 then 16 else 64)
        (\<lambda>t. if t = float then 4 else 16)
        (struct_fields (compile Metal) ''Uniforms'') =
      [(''projectionMatrix'', 0), (''viewMatrix'', 64), (''lightDirection'', 128),
       (''ambientIntensity'', align_up 4 (128 + 16))]
   \<and> (4::nat) dvd align_up 4 (128 + 16)"
proof -
  let ?sz = "\<lambda>t. if t = float then 4 else if t = vector_float3 then 16 else (64::nat)"
  let ?al = "\<lambda>t. if t = float then 4 else (16::nat)"
  have h: "?sz matrix_float4x4 = 64" "?al matrix_float4x4 dvd 64"
    "?al vector_float3 dvd 128" "?sz float = 4" "0 < ?al float"
    by simp_all
  show ?thesis
    using h Uniforms_layout_sequential [of ?sz ?al Metal, OF h] by simp
qed

text \<open>
  C7. Let the 3-component vector take 16 bytes at 16-byte alignment, the 4x4 matrix 64 bytes
  at an alignment that divides 16, and the float 4 bytes at 4-byte alignment. Then, in
  either compilation mode, \<open>ambientIntensity\<close> lies at offset 144 and \<open>Uniforms\<close> takes 160
  bytes, whereas the tight packing of 16, 16, 3 and 1 floats puts it at 140 and takes 144
  bytes: the scalar starts after the 16 bytes of the vector, not inside the 4 bytes of
  padding that follow the vector's 12 bytes of elements.
\<close>

theorem Uniforms_not_tightly_packed:
  assumes "sz matrix_float4x4 = 64" and "al matrix_float4x4 dvd 16"
    and "sz vector_float3 = 16" and "al vector_float3 = 16"
    and "sz float = 4" and "al float = 4"
  shows "field_offsets sz al (struct_fields (compile mode) ''Uniforms'') =
      [(''projectionMatrix'', 0), (''viewMatrix'', 64), (''lightDirection'', 128),
       (''ambientIntensity'', 144)]
    \<and> struct_size sz al (struct_fields (compile mode) ''Uniforms'') = 160
    \<and> field_offsets content_bytes (\<lambda>t. 1) (struct_fields (compile mode) ''Uniforms'') =
      [(''projectionMatrix'', 0), (''viewMatrix'', 64), (''lightDirection'', 128),
       (''ambientIntensity'', 140)]
    \<and> struct_size content_bytes (\<lambda>t. 1) (struct_fields (compile mode) ''Uniforms'') = 144
    \<and> 128 + content_bytes vector_float3 = 140
    \<and> 128 + sz vector_float3 = 144"
proof -
  let ?F = "struct_fields (compile mode) ''Uniforms''"
  have d64: "al matrix_float4x4 dvd 64"
    using assms(2) by (rule dvd_trans) simp
  have le16: "al matrix_float4x4 \<le> 16"
    using assms(2) by (rule dvd_imp_le) simp
  have m0: "align_up (al matrix_float4x4) 0 = 0"
    by (simp add: align_up_multiple)
  have m64: "align_up (al matrix_float4x4) 64 = 64"
    using d64 by (rule align_up_multiple)
  have a128: "align_up 16 128 = 128" and a144: "align_up 4 144 = 144"
    and a148: "align_up 16 148 = 160"
    by (simp_all add: align_up_def padding_def)
  have lay: "layout sz al 0 ?F =
      ([(''projectionMatrix'', 0), (''viewMatrix'', 64), (''lightDirection'', 128),
        (''ambientIntensity'', 144)], 148)"
    by (simp add: Uniforms_in_units assms(1,3,4,5,6) m0 m64 a128 a144)
  have al: "struct_alignment al ?F = 16"
    using le16 by (simp add: Uniforms_in_units assms(4,6))
  have tight: "layout content_bytes (\<lambda>t. 1) 0 ?F =
      ([(''projectionMatrix'', 0), (''viewMatrix'', 64), (''lightDirection'', 128),
        (''ambientIntensity'', 140)], 144)"
    by (simp add: Uniforms_in_units content_bytes_def align_up_def padding_def)
  have tight_al: "struct_alignment (\<lambda>t. 1) ?F = 1"
    by (simp add: Uniforms_in_units)
  have offs: "field_offsets sz al ?F =
      [(''projectionMatrix'', 0), (''viewMatrix'', 64), (''lightDirection'', 128),
       (''ambientIntensity'', 144)]"
    by (simp add: field_offsets_def lay)
  have size: "struct_size sz al ?F = 160"
    by (simp add: struct_size_def lay al a148)
  have tight_offs: "field_offsets content_bytes (\<lambda>t. 1) ?F =
      [(''projectionMatrix'', 0), (''viewMatrix'', 64), (''lightDirection'', 128),
       (''ambientIntensity'', 140)]"
    unfolding field_offsets_def tight by simp
  have tight_size: "struct_size content_bytes (\<lambda>t. 1) ?F = 144"
    unfolding struct_size_def tight tight_al by (simp add: align_up_def padding_def)
  have elems: "128 + content_bytes vector_float3 = 140"
    by (simp add: content_bytes_def)
  have whole: "128 + sz vector_float3 = 144"
    by (simp add: assms(3))
  from offs size tight_offs tight_size elems whole show ?thesis
    by blast
qed

theorem Uniforms_not_tightly_packed_witness:
  "(\<lambda>t. if t = float then 4 else if t = vector_float3 then 16 else 64) matrix_float4x4
     = (64::nat)
   \<and> (\<lambda>t. if t = float then 4 else (16::nat)) matrix_float4x4 dvd 16
   \<and> (\<lambda>t. if t = float then 4 else if t = vector_float3 then 16 else 64) vector_float3
     = (16::nat)
   \<and> (\<lambda>t. if t = float then 4 else (16::nat)) vector_float3 = 16
   \<and> (\<lambda>t. if t = float then 4 else if t = vector_float3 then 16 else 64) float = (4::nat)
   \<and> (\<lambda>t. if t = float then 4 else (16::nat)) float = 4
   \<and> map_of
        (field_offsets
          (\<lambda>t. if t = float then 4 else if t = vector_float3 then 16 else 64)
          (\<lambda>t. if t = float then 4 else 16)
          (struct_fields (compile Host) ''Uniforms''))
        ''ambientIntensity'' = Some 144
   \<and> struct_size
        (\<lambda>t. if t = float then 4 else if t = vector_float3 then 16 else 64)
        (\<lambda>t. if t = float then 4 else 16)
        (struct_fields (compile Host) ''Uniforms'') = 160
   \<and> struct_size content_bytes (\<lambda>t. 1) (struct_fields (compile Host) ''Uniforms'') = 144"
proof -
  let ?sz = "\<lambda>t. if t = float then 4 else if t = vector_float3 then 16 else (64::nat)"
  let ?al = "\<lambda>t. if t = float then 4 else (16::nat)"
  have h: "?sz matrix_float4x4 = 64" "?al matrix_float4x4 dvd 16"
    "?sz vector_float3 = 16" "?al vector_float3 = 16" "?sz float = 4" "?al float = 4"
    by simp_all
  show ?thesis
    using h Uniforms_not_tightly_packed [of ?sz ?al Host, OF h] by simp
qed

end
